theory Spec2Isabelle
  imports Main "HOL-Library.Char_ord" "HOL-Library.List_Lexorder"
begin

section \<open>Strings\<close>

text \<open>
  Python strings are modelled as \<open>string\<close> (lists of \<open>char\<close>), one \<open>char\<close> per
  code point, so the model covers the code points below 256.
\<close>

definition py_isspace :: "char \<Rightarrow> bool" where
  \<comment> \<open>The characters \<open>str.isspace\<close>, \<open>str.strip()\<close> and the pattern \<open>\s\<close> treat as
      whitespace: TAB..CR, FS..US, space, NEL and NBSP.\<close>
  "py_isspace c =
     (let n = (of_char c :: nat)
      in (9 \<le> n \<and> n \<le> 13) \<or> (28 \<le> n \<and> n \<le> 32) \<or> n = 133 \<or> n = 160)"

definition strip :: "string \<Rightarrow> string" where
  \<comment> \<open>\<open>s.strip()\<close>\<close>
  "strip s = rev (dropWhile py_isspace (rev (dropWhile py_isspace s)))"

definition startswith :: "string \<Rightarrow> string \<Rightarrow> bool" where
  \<comment> \<open>\<open>s.startswith(p)\<close>\<close>
  "startswith s p = (take (length p) s = p)"

fun split_on :: "char \<Rightarrow> string \<Rightarrow> string list" where
  \<comment> \<open>\<open>s.split(sep)\<close> for a one-character separator: never the empty list.\<close>
  "split_on sep [] = [[]]"
| "split_on sep (c # cs) =
     (if c = sep then [] # split_on sep cs
      else (case split_on sep cs of
              [] \<Rightarrow> [[c]]
            | w # ws \<Rightarrow> (c # w) # ws))"

fun join :: "string \<Rightarrow> string list \<Rightarrow> string" where
  \<comment> \<open>\<open>sep.join(xs)\<close>\<close>
  "join sep [] = []"
| "join sep [x] = x"
| "join sep (x # y # ys) = x @ sep @ join sep (y # ys)"

definition truthy :: "string option \<Rightarrow> bool" where
  \<comment> \<open>The truth value of an optional string: \<open>None\<close> and \<open>""\<close> are false.\<close>
  "truthy v = (case v of None \<Rightarrow> False | Some s \<Rightarrow> s \<noteq> [])"

section \<open>Regular expressions of \<open>handle_redirects\<close>\<close>

text \<open>
  The four patterns of \<open>handle_redirects\<close> use literals, \<open>.\<close>, \<open>\s\<close>, \<open>$\<close>,
  concatenation, alternation, groups, and the quantifiers \<open>?\<close>, \<open>*?\<close>, \<open>+?\<close>,
  \<open>+\<close>, \<open>*\<close> on single characters. \<open>ms\<close> is a backtracking matcher for that
  fragment: it lists the ways a pattern matches from a position, in the order in which
  the backtracking search of \<open>re\<close> tries them, so the head of the list is the match
  that \<open>re\<close> reports.
\<close>

datatype atom = Lit char | Dot | Space

fun atom_ok :: "atom \<Rightarrow> char \<Rightarrow> bool" where
  "atom_ok (Lit c) x = (x = c)"
| "atom_ok Dot x = (x \<noteq> CHR 0x0A)"
| "atom_ok Space x = py_isspace x"

datatype quant = Opt | StarLazy | PlusLazy | StarGreedy | PlusGreedy

datatype rx =
    One atom
  | Rep quant atom
  | Eol
  | Cat rx rx
  | Alt rx rx
  | Grp nat rx

type_synonym caps = "nat \<rightharpoonup> nat \<times> nat"

definition run_len :: "atom \<Rightarrow> string \<Rightarrow> nat \<Rightarrow> nat" where
  \<comment> \<open>How many consecutive characters from position \<open>p\<close> the atom accepts.\<close>
  "run_len a s p = length (takeWhile (atom_ok a) (drop p s))"

fun rep_ends :: "quant \<Rightarrow> nat \<Rightarrow> nat \<Rightarrow> nat list" where
  \<comment> \<open>The end positions a quantified atom tries, in order, when \<open>k\<close> characters from
      \<open>p\<close> are accepted: greedy from the longest, lazy from the shortest.\<close>
  "rep_ends Opt p k = rev [p ..< Suc (p + min k 1)]"
| "rep_ends StarLazy p k = [p ..< Suc (p + k)]"
| "rep_ends PlusLazy p k = [Suc p ..< Suc (p + k)]"
| "rep_ends StarGreedy p k = rev [p ..< Suc (p + k)]"
| "rep_ends PlusGreedy p k = rev [Suc p ..< Suc (p + k)]"

definition at_eol :: "string \<Rightarrow> nat \<Rightarrow> bool" where
  \<comment> \<open>\<open>$\<close> without MULTILINE: at the end, or before a newline that ends the string.\<close>
  "at_eol s p = (p = length s \<or> (Suc p = length s \<and> s ! p = CHR 0x0A))"

primrec ms :: "rx \<Rightarrow> string \<Rightarrow> nat \<times> caps \<Rightarrow> (nat \<times> caps) list" where
  "ms (One a) s st =
     (if fst st < length s \<and> atom_ok a (s ! fst st) then [(Suc (fst st), snd st)] else [])"
| "ms (Rep q a) s st = map (\<lambda>e. (e, snd st)) (rep_ends q (fst st) (run_len a s (fst st)))"
| "ms Eol s st = (if at_eol s (fst st) then [st] else [])"
| "ms (Cat r1 r2) s st = concat (map (ms r2 s) (ms r1 s st))"
| "ms (Alt r1 r2) s st = ms r1 s st @ ms r2 s st"
| "ms (Grp n r) s st =
     map (\<lambda>st'. (fst st', (snd st')(n \<mapsto> (fst st, fst st')))) (ms r s st)"

fun first_match :: "rx \<Rightarrow> string \<Rightarrow> nat list \<Rightarrow> caps option" where
  \<comment> \<open>The search tries the start positions from the left.\<close>
  "first_match r s [] = None"
| "first_match r s (p # ps) =
     (case ms r s (p, Map.empty) of
        [] \<Rightarrow> first_match r s ps
      | st # _ \<Rightarrow> Some (snd st))"

definition re_search :: "rx \<Rightarrow> string \<Rightarrow> (nat \<Rightarrow> string option) option" where
  \<comment> \<open>\<open>re.search(pattern, s)\<close>: \<open>None\<close>, or the function from a group number to the
      text of the group (\<open>None\<close> for a group that took no part in the match).\<close>
  "re_search r s =
     map_option
       (\<lambda>c n. map_option (\<lambda>(i, j). take (j - i) (drop i s)) (c n))
       (first_match r s [0 ..< Suc (length s)])"

fun seq :: "rx \<Rightarrow> rx list \<Rightarrow> rx" where
  \<comment> \<open>A pattern followed by further patterns.\<close>
  "seq r [] = r"
| "seq r (x # xs) = Cat r (seq x xs)"

definition word :: "char \<Rightarrow> string \<Rightarrow> rx" where
  \<comment> \<open>The literal text \<open>c # cs\<close>.\<close>
  "word c cs = seq (One (Lit c)) (map (\<lambda>x. One (Lit x)) cs)"

definition spaces :: rx where
  \<comment> \<open>\<open>(?:\s+)\<close>\<close>
  "spaces = Rep PlusGreedy Space"

definition stdout_tail :: rx where
  \<comment> \<open>\<open>(?:\s+2>>.*|$|\s+2>.*|$)\<close>\<close>
  "stdout_tail =
     Alt (seq spaces [word CHR ''2'' ''>>'', Rep StarGreedy Dot])
    (Alt Eol
    (Alt (seq spaces [word CHR ''2'' ''>'', Rep StarGreedy Dot])
         Eol))"

definition stdout_append_pattern :: rx where
  \<comment> \<open>\<open>(.*?)(?:\s+)(1?>>)(?:\s+)(.+?)(?:\s+2>>.*|$|\s+2>.*|$)\<close>\<close>
  "stdout_append_pattern =
     seq (Grp 1 (Rep StarLazy Dot))
       [spaces, Grp 2 (Cat (Rep Opt (Lit CHR ''1'')) (word CHR ''>'' ''>'')), spaces,
        Grp 3 (Rep PlusLazy Dot), stdout_tail]"

definition stdout_pattern :: rx where
  \<comment> \<open>\<open>(.*?)(?:\s+)(1?>|>)(?:\s+)(.+?)(?:\s+2>>.*|$|\s+2>.*|$)\<close>\<close>
  "stdout_pattern =
     seq (Grp 1 (Rep StarLazy Dot))
       [spaces,
        Grp 2 (Alt (Cat (Rep Opt (Lit CHR ''1'')) (One (Lit CHR ''>''))) (One (Lit CHR ''>''))),
        spaces, Grp 3 (Rep PlusLazy Dot), stdout_tail]"

definition stderr_append_pattern :: rx where
  \<comment> \<open>\<open>(.*?)(?:\s+)(2>>)(?:\s+)(.+)$\<close>\<close>
  "stderr_append_pattern =
     seq (Grp 1 (Rep StarLazy Dot))
       [spaces, Grp 2 (word CHR ''2'' ''>>''), spaces, Grp 3 (Rep PlusGreedy Dot), Eol]"

definition stderr_pattern :: rx where
  \<comment> \<open>\<open>(.*?)(?:\s+)(2>)(?:\s+)(.+)$\<close>\<close>
  "stderr_pattern =
     seq (Grp 1 (Rep StarLazy Dot))
       [spaces, Grp 2 (word CHR ''2'' ''>''), spaces, Grp 3 (Rep PlusGreedy Dot), Eol]"

section \<open>\<open>handle_redirects\<close>\<close>

definition group1 :: "(nat \<Rightarrow> string option) \<Rightarrow> string" where
  \<comment> \<open>\<open>m.group(1)\<close>; group 1 takes part in every match of the four patterns.\<close>
  "group1 m = (case m 1 of Some t \<Rightarrow> t | None \<Rightarrow> [])"

definition handle_redirects ::
  "string \<Rightarrow> string \<times> string option \<times> string option \<times> bool \<times> bool" where
  "handle_redirects command_str =
    (let stdout_append_match = re_search stdout_append_pattern command_str;
         stdout_match =
           (if stdout_append_match \<noteq> None then None
            else re_search stdout_pattern command_str);
         stdout_found = (stdout_append_match \<noteq> None \<or> stdout_match \<noteq> None);
         (cmd, stdout_file, append_stdout) =
           (case stdout_append_match of
              Some m \<Rightarrow> (group1 m, m 3, True)
            | None \<Rightarrow>
               (case stdout_match of
                  Some m \<Rightarrow> (group1 m, m 3, False)
                | None \<Rightarrow> (command_str, None, False)))
     in case re_search stderr_append_pattern command_str of
          Some m \<Rightarrow>
            (if \<not> stdout_found then group1 m else cmd, stdout_file, m 3, append_stdout, True)
        | None \<Rightarrow>
           (case re_search stderr_pattern command_str of
              Some m \<Rightarrow>
                (if \<not> stdout_found then group1 m else cmd, stdout_file, m 3,
                 append_stdout, False)
            | None \<Rightarrow> (cmd, stdout_file, None, append_stdout, False)))"

section \<open>Exceptions, events and the operating system\<close>

datatype exn =
    ValueError string
  | FileNotFoundError string
  | NotADirectoryError string
  | PermissionError string
  | OtherError string

fun str_of_exn :: "exn \<Rightarrow> string" where
  \<comment> \<open>\<open>str(e)\<close>: every exception carries its message.\<close>
  "str_of_exn (ValueError m) = m"
| "str_of_exn (FileNotFoundError m) = m"
| "str_of_exn (NotADirectoryError m) = m"
| "str_of_exn (PermissionError m) = m"
| "str_of_exn (OtherError m) = m"

text \<open>
  What the program does to its surroundings is a list of events, in order.
  \<open>FileWrite path appending text\<close> is one \<open>with open(path, mode) as f: f.write(text)\<close>,
  in mode \<open>'a'\<close> when \<open>appending\<close> holds and \<open>'w'\<close> otherwise; with the empty text the file
  is opened and closed and nothing is written.
\<close>

datatype event =
    Stdout string
  | Stderr string
  | FileWrite string bool string
  | Makedirs string
  | Run "string list"

text \<open>
  The answers of the operating system and of the interpreter are parameters: a \<open>world\<close>
  gives the outcome of each call at the moment the program makes it.
\<close>

record world =
  environ :: "string \<rightharpoonup> string"
  isfile :: "string \<Rightarrow> bool"
  access_x :: "string \<Rightarrow> bool"
  isdir :: "string \<Rightarrow> bool"
  path_exists :: "string \<Rightarrow> bool"
  listdir :: "string \<Rightarrow> exn + string list"
  makedirs :: "string \<Rightarrow> string option"
  open_file :: "string \<Rightarrow> bool \<Rightarrow> exn option"
  chdir :: "string \<Rightarrow> string \<Rightarrow> exn + string"
  run_process :: "string list \<Rightarrow> bool \<Rightarrow> bool \<Rightarrow> exn + string option \<times> string option"
  py_int :: "string \<Rightarrow> int option"

text \<open>
  \<^item> \<open>makedirs w d\<close>: \<open>None\<close> when \<open>os.makedirs(d, exist_ok=True)\<close> succeeds, the message
    of the \<open>OSError\<close> otherwise;
  \<^item> \<open>open_file w path appending\<close>: the exception \<open>open(path, mode)\<close> raises, if any;
  \<^item> \<open>chdir w cwd d\<close>: the working directory after \<open>os.chdir(d)\<close> from \<open>cwd\<close>, or the
    exception raised;
  \<^item> \<open>run_process w args out err\<close>: \<open>subprocess.run(args, ..., text=True)\<close> with the
    streams piped as \<open>out\<close> and \<open>err\<close> say: the exception raised, or \<open>result.stdout\<close>
    and \<open>result.stderr\<close>;
  \<^item> \<open>py_int w s\<close>: \<open>int(s)\<close>, \<open>None\<close> for a \<open>ValueError\<close>.
\<close>

definition getenv :: "world \<Rightarrow> string \<Rightarrow> string \<Rightarrow> string" where
  \<comment> \<open>\<open>os.environ.get(k, d)\<close>\<close>
  "getenv w k d = (case environ w k of None \<Rightarrow> d | Some v \<Rightarrow> v)"

definition path_join :: "string \<Rightarrow> string \<Rightarrow> string" where
  \<comment> \<open>\<open>os.path.join(a, b)\<close> (POSIX)\<close>
  "path_join a b =
     (if startswith b ''/'' then b
      else if a = [] \<or> last a = CHR ''/'' then a @ b
      else a @ ''/'' @ b)"

definition dirname :: "string \<Rightarrow> string" where
  \<comment> \<open>\<open>os.path.dirname(p)\<close> (POSIX): the text up to the last slash, without its
      trailing slashes unless it is slashes only.\<close>
  "dirname p =
     (let hd_part = rev (dropWhile (\<lambda>c. c \<noteq> CHR ''/'') (rev p))
      in if hd_part \<noteq> [] \<and> \<not> list_all (\<lambda>c. c = CHR ''/'') hd_part
         then rev (dropWhile (\<lambda>c. c = CHR ''/'') (rev hd_part))
         else hd_part)"

section \<open>\<open>find_executable\<close>\<close>

fun find_in :: "world \<Rightarrow> string \<Rightarrow> string list \<Rightarrow> string option" where
  \<comment> \<open>The loop over the directories of PATH.\<close>
  "find_in w command [] = None"
| "find_in w command (directory # paths) =
     (let full_path = path_join directory command
      in if isfile w full_path \<and> access_x w full_path then Some full_path
         else find_in w command paths)"

definition find_executable :: "world \<Rightarrow> string \<Rightarrow> string option" where
  "find_executable w command =
     find_in w command (split_on CHR '':'' (getenv w ''PATH'' []))"

section \<open>\<open>parse_command\<close>\<close>

text \<open>
  \<open>parse_command\<close> is \<open>shlex.split\<close>: the lexer of the standard library in POSIX mode,
  splitting on whitespace only, without comments. Its states are \<open>' '\<close> (between
  tokens), \<open>'a'\<close> (in a word), a quote character (inside quotes) and the escape
  character, which remembers the state to return to.
\<close>

datatype lexstate = SSpace | SWord | SQuote char | SEsc "char option"

definition shlex_whitespace :: "char \<Rightarrow> bool" where
  "shlex_whitespace c = (c \<in> set [CHR '' '', CHR 0x09, CHR 0x0D, CHR 0x0A])"

definition shlex_quote :: "char \<Rightarrow> bool" where
  "shlex_quote c = (c = CHR 0x27 \<or> c = CHR 0x22)"

definition emit :: "string \<Rightarrow> exn + string list \<Rightarrow> exn + string list" where
  "emit tok r = (case r of Inl e \<Rightarrow> Inl e | Inr ts \<Rightarrow> Inr (tok # ts))"

fun read_token :: "lexstate \<Rightarrow> string \<Rightarrow> bool \<Rightarrow> string \<Rightarrow> exn + string list" where
  \<comment> \<open>\<open>read_token st token quoted rest\<close>: the tokens read from \<open>rest\<close>, or the
      \<open>ValueError\<close>.\<close>
  "read_token (SQuote q) token quoted [] = Inl (ValueError ''No closing quotation'')"
| "read_token (SEsc es) token quoted [] = Inl (ValueError ''No escaped character'')"
| "read_token st token quoted [] = Inr (if token \<noteq> [] \<or> quoted then [token] else [])"
| "read_token SSpace token quoted (c # cs) =
     (if shlex_whitespace c then
        (if token \<noteq> [] \<or> quoted then emit token (read_token SSpace [] False cs)
         else read_token SSpace token quoted cs)
      else if c = CHR 0x5C then read_token (SEsc None) token quoted cs
      else if shlex_quote c then read_token (SQuote c) token quoted cs
      else read_token SWord [c] quoted cs)"
| "read_token SWord token quoted (c # cs) =
     (if shlex_whitespace c then
        (if token \<noteq> [] \<or> quoted then emit token (read_token SSpace [] False cs)
         else read_token SSpace token quoted cs)
      else if shlex_quote c then read_token (SQuote c) token quoted cs
      else if c = CHR 0x5C then read_token (SEsc None) token quoted cs
      else read_token SWord (token @ [c]) quoted cs)"
| "read_token (SQuote q) token quoted (c # cs) =
     (if c = q then read_token SWord token True cs
      else if c = CHR 0x5C \<and> q = CHR 0x22 then read_token (SEsc (Some q)) token True cs
      else read_token (SQuote q) (token @ [c]) True cs)"
| "read_token (SEsc None) token quoted (c # cs) = read_token SWord (token @ [c]) quoted cs"
| "read_token (SEsc (Some q)) token quoted (c # cs) =
     (if c \<noteq> CHR 0x5C \<and> c \<noteq> q
      then read_token (SQuote q) (token @ [CHR 0x5C, c]) quoted cs
      else read_token (SQuote q) (token @ [c]) quoted cs)"

definition parse_command :: "string \<Rightarrow> exn + string list" where
  "parse_command command_str = read_token SSpace [] False command_str"

section \<open>\<open>find_completions\<close>\<close>

definition builtins :: "string list" where
  "builtins = [''echo'', ''exit'', ''type'', ''pwd'', ''cd'']"

fun scan_files :: "world \<Rightarrow> string \<Rightarrow> string \<Rightarrow> string list \<Rightarrow> string list \<Rightarrow> string list" where
  \<comment> \<open>The loop over the files of one directory; \<open>executables\<close> is the list so far.\<close>
  "scan_files w text directory [] executables = executables"
| "scan_files w text directory (filename # files) executables =
     (let full_path = path_join directory filename
      in if startswith filename text \<and> isfile w full_path \<and> access_x w full_path
         then (if filename \<notin> set executables
               then scan_files w text directory files (executables @ [filename])
               else scan_files w text directory files executables)
         else scan_files w text directory files executables)"

fun scan_dirs :: "world \<Rightarrow> string \<Rightarrow> string list \<Rightarrow> string list \<Rightarrow> exn + string list" where
  \<comment> \<open>The loop over the directories of PATH: a directory that is none, or whose listing
      raises \<open>PermissionError\<close> or \<open>FileNotFoundError\<close>, is skipped; any other exception
      of the listing leaves the function.\<close>
  "scan_dirs w text [] executables = Inr executables"
| "scan_dirs w text (directory # paths) executables =
     (if \<not> isdir w directory then scan_dirs w text paths executables
      else (case listdir w directory of
              Inr files \<Rightarrow> scan_dirs w text paths (scan_files w text directory files executables)
            | Inl (PermissionError m) \<Rightarrow> scan_dirs w text paths executables
            | Inl (FileNotFoundError m) \<Rightarrow> scan_dirs w text paths executables
            | Inl e \<Rightarrow> Inl e))"

function lcp_index :: "string list \<Rightarrow> nat \<Rightarrow> nat" where
  \<comment> \<open>The \<open>while True\<close> loop: \<open>i\<close> advances while the first match has a character at
      \<open>i\<close> and every match has the same character there.\<close>
  "lcp_index matches i =
     (case matches of
        [] \<Rightarrow> i
      | m0 # _ \<Rightarrow>
          if i < length m0 \<and> list_all (\<lambda>m. \<not> (i \<ge> length m \<or> m ! i \<noteq> m0 ! i)) matches
          then lcp_index matches (Suc i)
          else i)"
  by pat_completeness auto
termination
  by (relation "measure (\<lambda>(matches, i). length (hd matches) - i)") auto

declare lcp_index.simps [simp del]

definition find_completions :: "world \<Rightarrow> string \<Rightarrow> exn + string list \<times> string" where
  "find_completions w text =
     (case scan_dirs w text (split_on CHR '':'' (getenv w ''PATH'' [])) [] of
        Inl e \<Rightarrow> Inl e
      | Inr executables \<Rightarrow>
         (case sort (filter (\<lambda>cmd. startswith cmd text) builtins @ executables) of
            [] \<Rightarrow> Inr ([], [])
          | m0 # ms' \<Rightarrow>
              Inr (m0 # ms', take (lcp_index (m0 # ms') (length text)) m0)))"

section \<open>\<open>complete\<close>\<close>

text \<open>
  The module's globals. \<open>longest_prefix\<close> has no value before the first assignment in
  \<open>complete\<close>; every read of it follows an assignment in the same call, so the initial
  value of the field is never seen.
\<close>

record comp_state =
  last_text :: string
  tab_pressed :: bool
  completion_matches :: "string list"
  longest_prefix :: string

definition init_state :: comp_state where
  "init_state =
     \<lparr>last_text = [], tab_pressed = False, completion_matches = [], longest_prefix = []\<rparr>"

definition reset_return :: "comp_state \<Rightarrow> string \<Rightarrow> nat \<Rightarrow> string option" where
  \<comment> \<open>The \<open>return\<close>s inside the block \<open>if text != last_text or state == 0\<close>, after the
      assignments: \<open>None\<close> when the block falls through.\<close>
  "reset_return st text state =
     (if text \<in> set builtins \<and> state = 0 then Some (text @ '' '')
      else if completion_matches st \<noteq> [] \<and> length (longest_prefix st) > length text then
        (if state = 0 then
           (if longest_prefix st \<in> set (completion_matches st)
            then Some (longest_prefix st @ '' '')
            else Some (longest_prefix st))
         else None)
      else if length (completion_matches st) = 1 \<and> state = 0
        then Some (completion_matches st ! 0 @ '' '')
      else None)"

definition after_reset ::
  "comp_state \<Rightarrow> string \<Rightarrow> nat \<Rightarrow> string option \<times> comp_state \<times> event list" where
  \<comment> \<open>From \<open>if len(completion_matches) > 1\<close> to the end of \<open>complete\<close>.\<close>
  "after_reset st text state =
     (if length (completion_matches st) > 1 \<and> \<not> tab_pressed st \<and> state = 0 then
        (None, st\<lparr>tab_pressed := True\<rparr>,
         if length (longest_prefix st) \<le> length text then [Stdout [CHR 0x07]] else [])
      else if length (completion_matches st) > 1 \<and> tab_pressed st \<and> state = 0 then
        (None, st\<lparr>tab_pressed := False\<rparr>,
         [Stdout [CHR 0x0A],
          Stdout (join ''  '' (completion_matches st) @ [CHR 0x0A]),
          Stdout (''$ '' @ text)])
      else if state < length (completion_matches st) then
        (if completion_matches st ! state = text \<or> completion_matches st ! state \<in> set builtins
         then (Some (completion_matches st ! state @ '' ''), st, [])
         else (Some (completion_matches st ! state), st, []))
      else (None, st, []))"

definition complete ::
  "world \<Rightarrow> comp_state \<Rightarrow> string \<Rightarrow> nat \<Rightarrow> (exn + string option) \<times> comp_state \<times> event list" where
  \<comment> \<open>\<open>complete(text, state)\<close> from the globals \<open>st\<close>: the value returned (or the
      exception that leaves the function), the globals afterwards, and what was printed.\<close>
  "complete w st text state =
     (if text = ''ech'' \<and> state = 0 then (Inr (Some ''echo ''), st, [])
      else if text = ''exi'' \<and> state = 0 then (Inr (Some ''exit ''), st, [])
      else if text \<in> set builtins \<and> state = 0 then (Inr (Some (text @ '' '')), st, [])
      else if text = ''xyz_quz_qux_bar'' \<and> state = 0
        then (Inr (Some ''xyz_quz_qux_bar ''), st, [])
      else if text \<noteq> last_text st \<or> state = 0 then
        (case find_completions w text of
           Inl e \<Rightarrow> (Inl e, st, [])
         | Inr (matches, lp) \<Rightarrow>
            (let st1 = st\<lparr>completion_matches := matches, longest_prefix := lp,
                           last_text := text\<rparr>
             in case reset_return st1 text state of
                  Some r \<Rightarrow> (Inr (Some r), st1, [])
                | None \<Rightarrow>
                   (case after_reset st1 text state of
                      (r, st2, out) \<Rightarrow> (Inr r, st2, out))))
      else (case after_reset st text state of (r, st2, out) \<Rightarrow> (Inr r, st2, out)))"

section \<open>\<open>main\<close>\<close>

datatype outcome = Continue | Exited int | Uncaught exn

text \<open>
  One handler returns the events it caused and how it ended: \<open>Continue\<close> (the loop goes
  on to the next prompt), \<open>Exited code\<close> (\<open>sys.exit\<close>) or \<open>Uncaught e\<close> (an exception no
  \<open>except\<close> clause of \<open>main\<close> catches, which ends the process).
\<close>

type_synonym result = "event list \<times> outcome"

definition and_then :: "result \<Rightarrow> result \<Rightarrow> result" where
  \<comment> \<open>Sequencing: the second part runs when the first ends normally.\<close>
  "and_then a b = (if snd a = Continue then (fst a @ fst b, snd b) else a)"

definition ensure_dir_exists :: "world \<Rightarrow> string \<Rightarrow> event list" where
  "ensure_dir_exists w file_path =
     (let directory = dirname file_path
      in if directory \<noteq> [] \<and> \<not> path_exists w directory then
           (case makedirs w directory of
              None \<Rightarrow> [Makedirs directory]
            | Some m \<Rightarrow>
                [Stdout (''Error creating directory '' @ directory @ '': '' @ m @ [CHR 0x0A])])
         else [])"

definition ensure_dirs :: "world \<Rightarrow> string option \<Rightarrow> event list" where
  \<comment> \<open>\<open>if f: ensure_dir_exists(f)\<close>\<close>
  "ensure_dirs w f = (case f of None \<Rightarrow> [] | Some p \<Rightarrow> if p \<noteq> [] then ensure_dir_exists w p else [])"

definition write_file :: "world \<Rightarrow> string \<Rightarrow> bool \<Rightarrow> string \<Rightarrow> result" where
  \<comment> \<open>\<open>with open(path, mode) as f: f.write(text)\<close>\<close>
  "write_file w path appending text =
     (case open_file w path appending of
        Some e \<Rightarrow> ([], Uncaught e)
      | None \<Rightarrow> ([FileWrite path appending text], Continue))"

definition file_or_print :: "world \<Rightarrow> string option \<Rightarrow> bool \<Rightarrow> string \<Rightarrow> result" where
  \<comment> \<open>\<open>if target: [write line to the file] else: print(line)\<close>\<close>
  "file_or_print w target appending line =
     (case target of
        None \<Rightarrow> ([Stdout (line @ [CHR 0x0A])], Continue)
      | Some p \<Rightarrow>
          if p \<noteq> [] then write_file w p appending (line @ [CHR 0x0A])
          else ([Stdout (line @ [CHR 0x0A])], Continue))"

definition touch_file :: "world \<Rightarrow> string option \<Rightarrow> bool \<Rightarrow> result" where
  \<comment> \<open>\<open>if stderr_file: with open(stderr_file, mode) as f: pass\<close>\<close>
  "touch_file w target appending =
     (case target of
        None \<Rightarrow> ([], Continue)
      | Some p \<Rightarrow> if p \<noteq> [] then write_file w p appending [] else ([], Continue))"

definition echo_cmd ::
  "world \<Rightarrow> string \<Rightarrow> string option \<Rightarrow> string option \<Rightarrow> bool \<Rightarrow> bool \<Rightarrow> result" where
  "echo_cmd w cmd stdout_file stderr_file append_stdout append_stderr =
     (case parse_command cmd of
        Inl e \<Rightarrow> ([], Uncaught e)
      | Inr args \<Rightarrow>
         (let output = (if length args > 1 then join '' '' (tl args) else [])
          in and_then (touch_file w stderr_file append_stderr)
                      (file_or_print w stdout_file append_stdout output)))"

definition type_cmd ::
  "world \<Rightarrow> string \<Rightarrow> string option \<Rightarrow> bool \<Rightarrow> result" where
  "type_cmd w cmd stdout_file append_stdout =
     (case parse_command cmd of
        Inl e \<Rightarrow> ([], Uncaught e)
      | Inr args \<Rightarrow>
         (if length args > 1 then
            (let cmd_to_check = args ! 1;
                 output =
                   (if cmd_to_check \<in> set builtins then cmd_to_check @ '' is a shell builtin''
                    else (let executable_path = find_executable w cmd_to_check
                          in case executable_path of
                               None \<Rightarrow> cmd_to_check @ '': not found''
                             | Some p \<Rightarrow>
                                 if p \<noteq> [] then cmd_to_check @ '' is '' @ p
                                 else cmd_to_check @ '': not found''))
             in file_or_print w stdout_file append_stdout output)
          else ([], Continue)))"

definition exit_cmd :: "world \<Rightarrow> string \<Rightarrow> result" where
  "exit_cmd w cmd =
     (case parse_command cmd of
        Inl e \<Rightarrow> ([], Uncaught e)
      | Inr args \<Rightarrow>
         ([], Exited (if length args > 1
                      then (case py_int w (args ! 1) of None \<Rightarrow> 0 | Some n \<Rightarrow> n)
                      else 0)))"

definition pwd_cmd :: "world \<Rightarrow> string \<Rightarrow> string option \<Rightarrow> bool \<Rightarrow> result" where
  "pwd_cmd w cwd stdout_file append_stdout = file_or_print w stdout_file append_stdout cwd"

definition expand_home :: "world \<Rightarrow> string \<Rightarrow> string" where
  \<comment> \<open>The \<open>~\<close> handling of \<open>cd\<close>.\<close>
  "expand_home w directory =
     (if directory = ''~'' \<or> startswith directory ''~/'' then
        (let home_dir = getenv w ''HOME'' []
         in if directory = ''~'' then home_dir else path_join home_dir (drop 2 directory))
      else directory)"

definition cd_cmd ::
  "world \<Rightarrow> string \<Rightarrow> string \<Rightarrow> string option \<Rightarrow> bool \<Rightarrow> result \<times> string" where
  \<comment> \<open>The handler of \<open>cd\<close>, with the working directory afterwards.\<close>
  "cd_cmd w cwd cmd stderr_file append_stderr =
     (case parse_command cmd of
        Inl e \<Rightarrow> (([], Uncaught e), cwd)
      | Inr args \<Rightarrow>
         (if length args > 1 then
            (let directory = expand_home w (args ! 1)
             in case chdir w cwd directory of
                  Inr cwd' \<Rightarrow> (([], Continue), cwd')
                | Inl (FileNotFoundError m) \<Rightarrow>
                    (file_or_print w stderr_file append_stderr
                       (''cd: '' @ directory @ '': No such file or directory''), cwd)
                | Inl (NotADirectoryError m) \<Rightarrow>
                    (file_or_print w stderr_file append_stderr
                       (''cd: '' @ directory @ '': Not a directory''), cwd)
                | Inl (PermissionError m) \<Rightarrow>
                    (file_or_print w stderr_file append_stderr
                       (''cd: '' @ directory @ '': Permission denied''), cwd)
                | Inl e \<Rightarrow> (([], Uncaught e), cwd))
          else (([], Continue), cwd)))"

definition write_captured :: "world \<Rightarrow> string option \<Rightarrow> bool \<Rightarrow> string option \<Rightarrow> bool \<Rightarrow> result" where
  \<comment> \<open>\<open>if target and captured is not None: [write it to the file]
      elif captured is not None: [write it to the stream]\<close>; \<open>err\<close> says which stream.\<close>
  "write_captured w target appending captured err =
     (case captured of
        None \<Rightarrow> ([], Continue)
      | Some text \<Rightarrow>
          (case target of
             None \<Rightarrow> ([if err then Stderr text else Stdout text], Continue)
           | Some p \<Rightarrow>
               if p \<noteq> [] then write_file w p appending text
               else ([if err then Stderr text else Stdout text], Continue)))"

definition external_cmd ::
  "world \<Rightarrow> string list \<Rightarrow> string option \<Rightarrow> string option \<Rightarrow> bool \<Rightarrow> bool \<Rightarrow> result" where
  \<comment> \<open>The body of \<open>if args:\<close> in the last branch of \<open>main\<close>: \<open>tried\<close> is the \<open>try\<close>
      block, whose exceptions the \<open>except Exception\<close> clause reports.\<close>
  "external_cmd w args stdout_file stderr_file append_stdout append_stderr =
     (let cmd_name = args ! 0
      in if truthy (find_executable w cmd_name) then
           (let tried =
              (case run_process w args (truthy stdout_file) (truthy stderr_file) of
                 Inl e \<Rightarrow> ([], Uncaught e)
               | Inr (out, err) \<Rightarrow>
                   and_then ([Run args], Continue)
                  (and_then (write_captured w stdout_file append_stdout out False)
                            (write_captured w stderr_file append_stderr err True)))
            in case snd tried of
                 Uncaught e \<Rightarrow>
                   and_then (fst tried, Continue)
                     (file_or_print w stderr_file append_stderr
                        (''Error executing command: '' @ str_of_exn e))
               | _ \<Rightarrow> tried)
         else file_or_print w stderr_file append_stderr
                (cmd_name @ '': command not found''))"

definition other_cmd ::
  "world \<Rightarrow> string \<Rightarrow> string option \<Rightarrow> string option \<Rightarrow> bool \<Rightarrow> bool \<Rightarrow> result" where
  \<comment> \<open>The last branch of \<open>main\<close>: an external command, or nothing for no tokens.\<close>
  "other_cmd w cmd stdout_file stderr_file append_stdout append_stderr =
     (case parse_command cmd of
        Inl e \<Rightarrow> ([], Uncaught e)
      | Inr args \<Rightarrow>
         (if args \<noteq> []
          then external_cmd w args stdout_file stderr_file append_stdout append_stderr
          else ([], Continue)))"

datatype kind = Echo | Type | Exit | Pwd | Cd | Other

definition classify :: "string \<Rightarrow> kind" where
  \<comment> \<open>The \<open>if\<close>/\<open>elif\<close> chain of \<open>main\<close> on \<open>cmd_without_redirect.strip()\<close>.\<close>
  "classify t =
     (if startswith t ''echo '' then Echo
      else if startswith t ''type '' then Type
      else if startswith t ''exit'' then Exit
      else if t = ''pwd'' then Pwd
      else if startswith t ''cd '' then Cd
      else Other)"

definition main_body :: "world \<Rightarrow> string \<Rightarrow> string \<Rightarrow> result \<times> string" where
  \<comment> \<open>One pass of the loop after \<open>input()\<close> returned \<open>command_str\<close>, in working
      directory \<open>cwd\<close>: the events and outcome, and the working directory afterwards.\<close>
  "main_body w cwd command_str =
     (case handle_redirects command_str of
        (cmd_without_redirect, stdout_file, stderr_file, append_stdout, append_stderr) \<Rightarrow>
         (let dirs = ensure_dirs w stdout_file @ ensure_dirs w stderr_file;
              r = (case classify (strip cmd_without_redirect) of
                     Echo \<Rightarrow>
                       (echo_cmd w cmd_without_redirect stdout_file stderr_file
                          append_stdout append_stderr, cwd)
                   | Type \<Rightarrow> (type_cmd w cmd_without_redirect stdout_file append_stdout, cwd)
                   | Exit \<Rightarrow> (exit_cmd w cmd_without_redirect, cwd)
                   | Pwd \<Rightarrow> (pwd_cmd w cwd stdout_file append_stdout, cwd)
                   | Cd \<Rightarrow> cd_cmd w cwd cmd_without_redirect stderr_file append_stderr
                   | Other \<Rightarrow>
                       (other_cmd w cmd_without_redirect stdout_file stderr_file
                          append_stdout append_stderr, cwd))
          in (and_then (dirs, Continue) (fst r), snd r)))"


section \<open>Example worlds\<close>

definition world_empty :: world where
  \<comment> \<open>No PATH, no files, no directories; every file can be opened.\<close>
  "world_empty =
     \<lparr>environ = Map.empty, isfile = (\<lambda>p. False), access_x = (\<lambda>p. False),
      isdir = (\<lambda>p. False), path_exists = (\<lambda>p. True),
      listdir = (\<lambda>p. Inl (FileNotFoundError [])), makedirs = (\<lambda>p. None),
      open_file = (\<lambda>p a. None), chdir = (\<lambda>cwd d. Inl (FileNotFoundError [])),
      run_process = (\<lambda>args out err. Inr (None, None)), py_int = (\<lambda>s. None)\<rparr>"

definition world_bin :: world where
  \<comment> \<open>PATH is \<open>/bin\<close>, which holds the executables \<open>echo\<close> and \<open>cdx\<close>.\<close>
  "world_bin =
     world_empty
       \<lparr>environ := [''PATH'' \<mapsto> ''/bin''],
        isfile := (\<lambda>p. p = ''/bin/echo'' \<or> p = ''/bin/cdx''),
        access_x := (\<lambda>p. p = ''/bin/echo'' \<or> p = ''/bin/cdx''),
        isdir := (\<lambda>p. p = ''/bin''),
        listdir := (\<lambda>p. Inr [''echo'', ''cdx''])\<rparr>"

definition world_cwd :: world where
  \<comment> \<open>No PATH; the working directory holds the executable \<open>run.sh\<close>.\<close>
  "world_cwd =
     world_empty\<lparr>isfile := (\<lambda>p. p = ''run.sh''), access_x := (\<lambda>p. p = ''run.sh'')\<rparr>"

section \<open>What a handler is expected to emit\<close>





definition plain :: "char \<Rightarrow> bool" where
  \<comment> \<open>A character that is no whitespace, quote or backslash for the tokenizer.\<close>
  "plain c = (\<not> shlex_whitespace c \<and> \<not> shlex_quote c \<and> c \<noteq> CHR 0x5C)"


section \<open>Redirections\<close>

lemma ms_keeps_groups:
  "st' \<in> set (ms r s st) \<Longrightarrow> snd st n \<noteq> None \<Longrightarrow> snd st' n \<noteq> None"
proof (induction r arbitrary: st st')
  case (Cat r1 r2)
  from Cat.prems(1) obtain mid where "mid \<in> set (ms r1 s st)" and "st' \<in> set (ms r2 s mid)"
    by auto
  with Cat.IH Cat.prems(2) show ?case by blast
qed (auto split: if_splits)

lemma first_match_found:
  "first_match r s ps = Some c \<Longrightarrow> \<exists>p st'. st' \<in> set (ms r s (p, Map.empty)) \<and> c = snd st'"
proof (induction ps)
  case Nil
  then show ?case by simp
next
  case (Cons p ps)
  show ?case
  proof (cases "ms r s (p, Map.empty)")
    case Nil
    with Cons show ?thesis by simp
  next
    case (Cons st' rest)
    with Cons.prems have "c = snd st'" by simp
    moreover from Cons have "st' \<in> set (ms r s (p, Map.empty))" by simp
    ultimately show ?thesis by blast
  qed
qed

lemma re_search_first_group:
  assumes "re_search (Cat (Grp n a) rest) s = Some m"
  shows "m n \<noteq> None"
proof -
  from assms obtain c where c: "first_match (Cat (Grp n a) rest) s [0 ..< Suc (length s)] = Some c"
    and m: "m = (\<lambda>k. map_option (\<lambda>(i, j). take (j - i) (drop i s)) (c k))"
    by (auto simp: re_search_def)
  from first_match_found [OF c] obtain p st' where
    st': "st' \<in> set (ms (Cat (Grp n a) rest) s (p, Map.empty))" and cs: "c = snd st'"
    by blast
  from st' obtain mid where mid: "mid \<in> set (ms (Grp n a) s (p, Map.empty))"
    and last: "st' \<in> set (ms rest s mid)"
    by auto
  from mid have "snd mid n \<noteq> None" by auto
  with last have "snd st' n \<noteq> None" by (rule ms_keeps_groups)
  with cs m show ?thesis by simp
qed

lemma handle_redirects_group1:
  assumes "p \<in> set [stdout_append_pattern, stdout_pattern, stderr_append_pattern, stderr_pattern]"
    and "re_search p s = Some m"
  shows "m 1 \<noteq> None"
  using assms
  by (auto simp: stdout_append_pattern_def stdout_pattern_def stderr_append_pattern_def
      stderr_pattern_def dest: re_search_first_group)

lemma handle_redirects_stdout_first:
  "handle_redirects ''cmd > o.txt 2> e.txt'' = (''cmd'', Some ''o.txt'', Some ''e.txt'', False, False)"
  by code_simp

text \<open>
  C1. On \<open>cmd 2> e.txt > o.txt\<close> the extractor should return the command text \<open>cmd\<close>,
  the stderr target \<open>e.txt\<close> and the stdout target \<open>o.txt\<close>. The code returns a command
  text that still holds the stderr operator and its target, and a stderr target that
  holds the stdout operator and its target: the stderr patterns take everything up to
  the end of the line, where the stdout patterns stop at a stderr operator.
\<close>

theorem handle_redirects_stderr_first:
  "handle_redirects ''cmd 2> e.txt > o.txt'' =
     (''cmd 2> e.txt'', Some ''o.txt'', Some ''e.txt > o.txt'', False, False)"
  by code_simp

theorem handle_redirects_stderr_first_witness:
  "fst (handle_redirects ''cmd 2> e.txt > o.txt'') \<noteq> ''cmd'' \<and>
   fst (snd (snd (handle_redirects ''cmd 2> e.txt > o.txt''))) \<noteq> Some ''e.txt''"
  using handle_redirects_stderr_first by simp

section \<open>The path resolver\<close>

lemma path_join_empty: "path_join [] name = name"
  by (simp add: path_join_def)

lemma find_in_None:
  "find_in w name ds = None \<longleftrightarrow>
     (\<forall>d \<in> set ds. \<not> (isfile w (path_join d name) \<and> access_x w (path_join d name)))"
  by (induction ds) (auto simp: Let_def)

lemma find_in_Some:
  "find_in w name ds = Some p \<Longrightarrow>
     \<exists>pre d post. ds = pre @ d # post \<and> p = path_join d name \<and> isfile w p \<and> access_x w p \<and>
       (\<forall>x \<in> set pre. \<not> (isfile w (path_join x name) \<and> access_x w (path_join x name)))"
proof (induction ds)
  case Nil
  then show ?case by simp
next
  case (Cons a ds)
  show ?case
  proof (cases "isfile w (path_join a name) \<and> access_x w (path_join a name)")
    case True
    with Cons.prems have "p = path_join a name" by (simp add: Let_def)
    with True have "a # ds = [] @ a # ds \<and> p = path_join a name \<and> isfile w p \<and> access_x w p \<and>
       (\<forall>x \<in> set []. \<not> (isfile w (path_join x name) \<and> access_x w (path_join x name)))"
      by simp
    then show ?thesis by blast
  next
    case False
    with Cons.prems have "find_in w name ds = Some p" by (auto simp: Let_def)
    from Cons.IH[OF this] obtain pre d post where
      h: "ds = pre @ d # post" "p = path_join d name" "isfile w p" "access_x w p"
         "\<forall>x \<in> set pre. \<not> (isfile w (path_join x name) \<and> access_x w (path_join x name))"
      by blast
    with False have "a # ds = (a # pre) @ d # post \<and> p = path_join d name \<and> isfile w p \<and>
       access_x w p \<and>
       (\<forall>x \<in> set (a # pre). \<not> (isfile w (path_join x name) \<and> access_x w (path_join x name)))"
      by simp
    then show ?thesis by blast
  qed
qed

text \<open>
  C7, counterexample. With the search-path variable unset, the resolver returns a path:
  the name itself, when the working directory holds an executable file of that name.
\<close>

theorem find_executable_unset_path_counterexample:
  "environ world_cwd ''PATH'' = None \<and>
   find_executable world_cwd ''run.sh'' = Some ''run.sh''"
  by (simp add: find_executable_def getenv_def world_cwd_def world_empty_def path_join_def
      startswith_def)

text \<open>
  C7, amended. The resolver splits the search-path variable at \<open>:\<close> (one empty entry
  when the variable is unset or empty) and returns the join of the first entry, in order,
  with the name that is a regular file and executable; it returns none exactly when no
  entry yields such a path. With the variable unset or empty the only candidate is the
  name itself, which is returned when it is a regular executable file.
\<close>

theorem find_executable_first_match:
  "(find_executable w name = None \<longleftrightarrow>
      (\<forall>d \<in> set (split_on CHR '':'' (getenv w ''PATH'' [])).
         \<not> (isfile w (path_join d name) \<and> access_x w (path_join d name)))) \<and>
   (find_executable w name = Some p \<longrightarrow>
      (\<exists>pre d post. split_on CHR '':'' (getenv w ''PATH'' []) = pre @ d # post \<and>
         p = path_join d name \<and> isfile w p \<and> access_x w p \<and>
         (\<forall>x \<in> set pre. \<not> (isfile w (path_join x name) \<and> access_x w (path_join x name))))) \<and>
   (environ w ''PATH'' = None \<or> environ w ''PATH'' = Some [] \<longrightarrow>
      find_executable w name = (if isfile w name \<and> access_x w name then Some name else None))"
proof (intro conjI impI)
  show "find_executable w name = None \<longleftrightarrow>
      (\<forall>d \<in> set (split_on CHR '':'' (getenv w ''PATH'' [])).
         \<not> (isfile w (path_join d name) \<and> access_x w (path_join d name)))"
    unfolding find_executable_def by (rule find_in_None)
next
  assume "find_executable w name = Some p"
  then show "\<exists>pre d post. split_on CHR '':'' (getenv w ''PATH'' []) = pre @ d # post \<and>
         p = path_join d name \<and> isfile w p \<and> access_x w p \<and>
         (\<forall>x \<in> set pre. \<not> (isfile w (path_join x name) \<and> access_x w (path_join x name)))"
    unfolding find_executable_def by (rule find_in_Some)
next
  assume "environ w ''PATH'' = None \<or> environ w ''PATH'' = Some []"
  then have "getenv w ''PATH'' [] = []"
    by (auto simp: getenv_def)
  then show "find_executable w name = (if isfile w name \<and> access_x w name then Some name else None)"
    by (simp add: find_executable_def path_join_empty)
qed

theorem find_executable_first_match_witness:
  "find_executable world_bin ''cdx'' = Some ''/bin/cdx'' \<and>
   find_executable world_bin ''ls'' = None \<and>
   find_executable world_empty ''ls'' = None"
proof -
  have a: "environ world_empty ''PATH'' = None \<or> environ world_empty ''PATH'' = Some []"
    by (simp add: world_empty_def)
  have b: "split_on CHR '':'' (getenv world_bin ''PATH'' []) = [''/bin'']"
    by (simp add: getenv_def world_bin_def world_empty_def)
  have c: "find_executable world_bin ''ls'' = None"
    using find_executable_first_match [of world_bin "''ls''" "[]"] b
    by (simp add: world_bin_def world_empty_def path_join_def startswith_def)
  have d: "find_executable world_empty ''ls'' = None"
    using find_executable_first_match [of world_empty "''ls''" "[]"] a
    by (simp add: world_empty_def)
  have "find_executable world_bin ''cdx'' \<noteq> None"
    using find_executable_first_match [of world_bin "''cdx''" "[]"] b
    by (simp add: world_bin_def world_empty_def path_join_def startswith_def)
  then obtain p where p: "find_executable world_bin ''cdx'' = Some p" by blast
  with find_executable_first_match [of world_bin "''cdx''" p] b
  have "p = ''/bin/cdx''"
    by (auto simp: Cons_eq_append_conv path_join_def startswith_def)
  with p c d show ?thesis by simp
qed

section \<open>Classification\<close>

text \<open>
  C6, counterexample. The trimmed command text \<open>pwdx\<close> begins with \<open>pwd\<close> and is not the
  Pwd builtin: it is looked up as an external command.
\<close>

theorem classify_pwdx_counterexample:
  "startswith ''pwdx'' ''pwd'' \<and> classify (strip ''pwdx'') = Other \<and>
   main_body world_empty ''/'' ''pwdx'' =
     (([Stdout (''pwdx: command not found'' @ [CHR 0x0A])], Continue), ''/'')"
  by code_simp

lemma startswith_Nil: "startswith t [] = True"
  by (simp add: startswith_def)

lemma startswith_Cons:
  "startswith t (c # p) = (case t of [] \<Rightarrow> False | x # xs \<Rightarrow> x = c \<and> startswith xs p)"
  by (cases t) (auto simp: startswith_def)

lemma main_body_Other:
  assumes "handle_redirects line = (cmd, so, se, ao, ae)"
    and "classify (strip cmd) = Other"
  shows "main_body w cwd line =
           (and_then (ensure_dirs w so @ ensure_dirs w se, Continue)
              (other_cmd w cmd so se ao ae), cwd)"
  using assms by (simp add: main_body_def)

text \<open>
  C6, amended. Classification of the trimmed command text is by literal prefix for
  \<open>"echo "\<close>, \<open>"type "\<close>, \<open>"exit"\<close> and \<open>"cd "\<close>, and by equality for \<open>"pwd"\<close>; the five
  tests exclude one another, so their order does not matter. Any other command text is
  tokenized: with a nonempty token list it is run as an external command on those
  tokens, and with an empty one nothing is done.
\<close>

theorem classify_dispatch:
  "(classify t = Echo \<longleftrightarrow> startswith t ''echo '') \<and>
   (classify t = Type \<longleftrightarrow> startswith t ''type '') \<and>
   (classify t = Exit \<longleftrightarrow> startswith t ''exit'') \<and>
   (classify t = Pwd \<longleftrightarrow> t = ''pwd'') \<and>
   (classify t = Cd \<longleftrightarrow> startswith t ''cd '') \<and>
   (handle_redirects line = (cmd, so, se, ao, ae) \<and> classify (strip cmd) = Other \<and>
    parse_command cmd = Inr args \<longrightarrow>
      main_body w cwd line =
        (and_then (ensure_dirs w so @ ensure_dirs w se, Continue)
           (if args \<noteq> [] then external_cmd w args so se ao ae else ([], Continue)), cwd))"
proof (intro conjI impI)
  show "classify t = Echo \<longleftrightarrow> startswith t ''echo ''"
    by (simp add: classify_def)
  show "classify t = Type \<longleftrightarrow> startswith t ''type ''"
    by (auto simp: classify_def startswith_Cons startswith_Nil split: list.splits)
  show "classify t = Exit \<longleftrightarrow> startswith t ''exit''"
    by (auto simp: classify_def startswith_Cons startswith_Nil split: list.splits)
  show "classify t = Pwd \<longleftrightarrow> t = ''pwd''"
    by (auto simp: classify_def startswith_Cons startswith_Nil split: list.splits)
  show "classify t = Cd \<longleftrightarrow> startswith t ''cd ''"
    by (auto simp: classify_def startswith_Cons startswith_Nil split: list.splits)
next
  assume h: "handle_redirects line = (cmd, so, se, ao, ae) \<and> classify (strip cmd) = Other \<and>
    parse_command cmd = Inr args"
  then have "main_body w cwd line =
           (and_then (ensure_dirs w so @ ensure_dirs w se, Continue)
              (other_cmd w cmd so se ao ae), cwd)"
    by (simp add: main_body_Other)
  with h show "main_body w cwd line =
        (and_then (ensure_dirs w so @ ensure_dirs w se, Continue)
           (if args \<noteq> [] then external_cmd w args so se ao ae else ([], Continue)), cwd)"
    by (simp add: other_cmd_def)
qed

theorem classify_dispatch_witness:
  "classify ''pwd'' = Pwd \<and> classify ''pwdx'' \<noteq> Pwd \<and> classify ''exitnow'' = Exit \<and>
   main_body world_empty ''/'' ''ls -l'' =
     (([Stdout (''ls: command not found'' @ [CHR 0x0A])], Continue), ''/'')"
proof -
  have a: "handle_redirects ''ls -l'' = (''ls -l'', None, None, False, False)"
    by code_simp
  have b: "classify (strip ''ls -l'') = Other"
    by code_simp
  have c: "parse_command ''ls -l'' = Inr [''ls'', ''-l'']"
    by code_simp
  have d: "external_cmd world_empty [''ls'', ''-l''] None None False False =
      ([Stdout (''ls: command not found'' @ [CHR 0x0A])], Continue)"
    by code_simp
  have e: "startswith ''exitnow'' ''exit''"
    by code_simp
  from classify_dispatch [of "''pwd''" "''ls -l''" "''ls -l''" None None False False
      "[''ls'', ''-l'']" world_empty "''/''"] a b c d
  have 1: "classify ''pwd'' = Pwd" and
    2: "main_body world_empty ''/'' ''ls -l'' =
     (([Stdout (''ls: command not found'' @ [CHR 0x0A])], Continue), ''/'')"
    by (simp_all add: and_then_def ensure_dirs_def)
  from classify_dispatch [of "''pwdx''"] have 3: "classify ''pwdx'' \<noteq> Pwd"
    by simp
  from classify_dispatch [of "''exitnow''"] e have 4: "classify ''exitnow'' = Exit"
    by simp
  from 1 2 3 4 show ?thesis by simp
qed

section \<open>Completion\<close>

text \<open>
  C10. For attempt 0 the typed texts \<open>ech\<close>, \<open>exi\<close> and \<open>xyz_quz_qux_bar\<close> return
  \<open>"echo "\<close>, \<open>"exit "\<close> and \<open>"xyz_quz_qux_bar "\<close>, whatever the world holds and whatever
  the completion state is; the state is left as it was, the candidates are not computed,
  and nothing is printed.
\<close>

theorem complete_hardcoded:
  "complete w st ''ech'' 0 = (Inr (Some ''echo ''), st, []) \<and>
   complete w st ''exi'' 0 = (Inr (Some ''exit ''), st, []) \<and>
   complete w st ''xyz_quz_qux_bar'' 0 = (Inr (Some ''xyz_quz_qux_bar ''), st, [])"
  by (simp add: complete_def builtins_def)

theorem complete_hardcoded_witness:
  "complete world_bin init_state ''ech'' 0 = (Inr (Some ''echo ''), init_state, []) \<and>
   complete world_bin init_state ''exi'' 0 = (Inr (Some ''exit ''), init_state, []) \<and>
   complete world_bin init_state ''xyz_quz_qux_bar'' 0 =
     (Inr (Some ''xyz_quz_qux_bar ''), init_state, [])"
  using complete_hardcoded [of world_bin init_state] by simp

lemma scan_files_distinct:
  "distinct executables \<Longrightarrow> distinct (scan_files w text directory files executables)"
  by (induction files arbitrary: executables) (auto simp: Let_def)

lemma scan_dirs_distinct:
  "distinct executables \<Longrightarrow> scan_dirs w text paths executables = Inr found \<Longrightarrow> distinct found"
proof (induction paths arbitrary: executables)
  case Nil
  then show ?case by simp
next
  case (Cons directory paths)
  show ?case
  proof (cases "isdir w directory")
    case False
    with Cons show ?thesis by simp
  next
    case True
    show ?thesis
    proof (cases "listdir w directory")
      case (Inr files)
      with True Cons.prems(2) have
        "scan_dirs w text paths (scan_files w text directory files executables) = Inr found"
        by simp
      with Cons.IH scan_files_distinct [OF Cons.prems(1)] show ?thesis by blast
    next
      case (Inl e)
      with True Cons show ?thesis by (cases e) auto
    qed
  qed
qed


lemma complete_ambiguous:
  assumes "text \<notin> set ([''ech'', ''exi'', ''xyz_quz_qux_bar''] @ builtins)"
    and "find_completions w text = Inr (matches, lp)"
    and "length matches > 1"
    and "length lp \<le> length text"
  shows "complete w st text 0 =
     (if tab_pressed st
      then (Inr None,
            st\<lparr>completion_matches := matches, longest_prefix := lp, last_text := text,
               tab_pressed := False\<rparr>,
            [Stdout [CHR 0x0A], Stdout (join ''  '' matches @ [CHR 0x0A]),
             Stdout (''$ '' @ text)])
      else (Inr None,
            st\<lparr>completion_matches := matches, longest_prefix := lp, last_text := text,
               tab_pressed := True\<rparr>,
            [Stdout [CHR 0x07]]))"
proof -
  have a: "text \<noteq> ''ech''" "text \<noteq> ''exi''" "text \<noteq> ''xyz_quz_qux_bar''"
    "text \<notin> set builtins"
    using assms(1) by auto
  have b: "\<not> length lp > length text" "length matches \<noteq> 1" "\<not> length matches \<le> 1"
    using assms(3,4) by auto
  show ?thesis
    using a b assms(2,3,4)
    by (simp add: complete_def reset_return_def after_reset_def)
qed



lemma find_completions_e:
  "find_completions world_empty ''e'' = Inr ([''echo'', ''exit''], ''e'')"
  by code_simp

lemma find_completions_all:
  "find_completions world_empty [] = Inr ([''cd'', ''echo'', ''exit'', ''pwd'', ''type''], [])"
  by code_simp


text \<open>
  C2. After a prefix change every part of the completion state should be discarded, so
  a change while a second press is awaited should never print the candidate list. The
  code recomputes the candidates, the longest common extension and the recorded text,
  and keeps the awaiting flag: with the flag set from another text, the first request on
  a new ambiguous text prints the candidate list at once.
\<close>

theorem complete_keeps_flag_on_new_text:
  assumes "tab_pressed st"
    and "text \<noteq> last_text st"
    and "text \<notin> set ([''ech'', ''exi'', ''xyz_quz_qux_bar''] @ builtins)"
    and "find_completions w text = Inr (matches, lp)"
    and "length matches > 1"
    and "length lp \<le> length text"
  shows "complete w st text 0 =
     (Inr None,
      st\<lparr>completion_matches := matches, longest_prefix := lp, last_text := text,
         tab_pressed := False\<rparr>,
      [Stdout [CHR 0x0A], Stdout (join ''  '' matches @ [CHR 0x0A]), Stdout (''$ '' @ text)])"
  using complete_ambiguous [OF assms(3-6), of st] assms(1) by simp

theorem complete_keeps_flag_on_new_text_witness:
  "fst (snd (complete world_empty init_state ''e'' 0)) =
     \<lparr>last_text = ''e'', tab_pressed = True, completion_matches = [''echo'', ''exit''],
      longest_prefix = ''e''\<rparr> \<and>
   complete world_empty
     \<lparr>last_text = ''e'', tab_pressed = True, completion_matches = [''echo'', ''exit''],
      longest_prefix = ''e''\<rparr> [] 0 =
     (Inr None,
      \<lparr>last_text = [], tab_pressed = False,
       completion_matches = [''cd'', ''echo'', ''exit'', ''pwd'', ''type''],
       longest_prefix = []\<rparr>,
      [Stdout [CHR 0x0A], Stdout (''cd  echo  exit  pwd  type'' @ [CHR 0x0A]),
       Stdout ''$ ''])"
proof -
  have first: "fst (snd (complete world_empty init_state ''e'' 0)) =
     \<lparr>last_text = ''e'', tab_pressed = True, completion_matches = [''echo'', ''exit''],
      longest_prefix = ''e''\<rparr>"
    using complete_ambiguous [of "''e''" world_empty "[''echo'', ''exit'']" "''e''" init_state]
      find_completions_e
    by (simp add: builtins_def init_state_def)
  have a: "tab_pressed
     \<lparr>last_text = ''e'', tab_pressed = True, completion_matches = [''echo'', ''exit''],
      longest_prefix = ''e''\<rparr>" by simp
  have b: "[] \<noteq> last_text
     \<lparr>last_text = ''e'', tab_pressed = True, completion_matches = [''echo'', ''exit''],
      longest_prefix = ''e''\<rparr>" by simp
  have c: "[] \<notin> set ([''ech'', ''exi'', ''xyz_quz_qux_bar''] @ builtins)"
    by (simp add: builtins_def)
  have d: "length [''cd'', ''echo'', ''exit'', ''pwd'', ''type''] > 1" by simp
  have e: "length ([] :: string) \<le> length ([] :: string)" by simp
  from complete_keeps_flag_on_new_text [OF a b c find_completions_all d e] first
  show ?thesis by simp
qed

text \<open>
  C5. A path executable whose name is a builtin name should appear once among the
  candidates. The code collects the builtin matches, then the executables without
  repeating an executable, and joins the two lists: with an executable \<open>echo\<close> on the
  search path the candidates for \<open>ec\<close> hold \<open>echo\<close> twice.
\<close>

theorem find_completions_builtin_twice:
  "find_completions world_bin ''ec'' = Inr ([''echo'', ''echo''], ''echo'')"
  by code_simp

theorem find_completions_builtin_twice_witness:
  "\<exists>matches lp. find_completions world_bin ''ec'' = Inr (matches, lp) \<and> \<not> distinct matches"
  using find_completions_builtin_twice by simp

section \<open>The tokenizer\<close>


lemma emit_Inr: "emit tok (Inr ts) = Inr (tok # ts)"
  by (simp add: emit_def)





lemma read_token_word:
  "\<forall>c \<in> set w. plain c \<Longrightarrow>
     read_token SWord tok quoted (w @ rest) = read_token SWord (tok @ w) quoted rest"
  by (induction w arbitrary: tok) (auto simp: plain_def)

lemma read_token_spaces:
  "\<forall>c \<in> set sp. shlex_whitespace c \<Longrightarrow>
     read_token SSpace [] False (sp @ rest) = read_token SSpace [] False rest"
  by (induction sp) auto

lemma read_token_first_word:
  assumes "w \<noteq> []" and "\<forall>c \<in> set w. plain c"
  shows "read_token SSpace [] False (w @ rest) = read_token SWord w False rest"
proof -
  from assms(1) obtain c w' where w: "w = c # w'" by (cases w) auto
  with assms(2) have c: "plain c" and w': "\<forall>c \<in> set w'. plain c" by simp_all
  from c have "read_token SSpace [] False (c # w' @ rest) = read_token SWord [c] False (w' @ rest)"
    by (simp add: plain_def)
  also have "\<dots> = read_token SWord ([c] @ w') False rest"
    using w' by (rule read_token_word)
  finally show ?thesis using w by simp
qed

lemma read_token_more_words:
  assumes "\<forall>(sp, w) \<in> set xs. sp \<noteq> [] \<and> (\<forall>c \<in> set sp. shlex_whitespace c) \<and>
             w \<noteq> [] \<and> (\<forall>c \<in> set w. plain c)"
    and "tok \<noteq> []"
  shows "read_token SWord tok False (concat (map (\<lambda>(sp, w). sp @ w) xs)) =
           Inr (tok # map snd xs)"
  using assms
proof (induction xs arbitrary: tok)
  case Nil
  then show ?case by simp
next
  case (Cons x xs)
  obtain sp w where x: "x = (sp, w)" by (cases x)
  let ?rest = "concat (map (\<lambda>(sp, w). sp @ w) xs)"
  from Cons.prems(1) x have sp: "sp \<noteq> []" "\<forall>c \<in> set sp. shlex_whitespace c"
    and w: "w \<noteq> []" "\<forall>c \<in> set w. plain c"
    and xs: "\<forall>(sp, w) \<in> set xs. sp \<noteq> [] \<and> (\<forall>c \<in> set sp. shlex_whitespace c) \<and>
             w \<noteq> [] \<and> (\<forall>c \<in> set w. plain c)"
    by auto
  from sp(1) obtain s sp' where s: "sp = s # sp'" by (cases sp) auto
  with sp(2) have s1: "shlex_whitespace s" and s2: "\<forall>c \<in> set sp'. shlex_whitespace c"
    by simp_all
  have "read_token SWord tok False (s # sp' @ w @ ?rest) =
          emit tok (read_token SSpace [] False (sp' @ w @ ?rest))"
    using s1 Cons.prems(2) by simp
  also have "read_token SSpace [] False (sp' @ w @ ?rest) = read_token SSpace [] False (w @ ?rest)"
    using s2 by (rule read_token_spaces)
  also have "read_token SSpace [] False (w @ ?rest) = read_token SWord w False ?rest"
    using w by (rule read_token_first_word)
  also have "read_token SWord w False ?rest = Inr (w # map snd xs)"
    using xs w(1) by (rule Cons.IH)
  finally show ?case using x s by (simp add: emit_Inr)
qed

lemma parse_command_words:
  assumes "w1 \<noteq> []" and "\<forall>c \<in> set w1. plain c"
    and "\<forall>(sp, w) \<in> set xs. sp \<noteq> [] \<and> (\<forall>c \<in> set sp. shlex_whitespace c) \<and>
             w \<noteq> [] \<and> (\<forall>c \<in> set w. plain c)"
  shows "parse_command (w1 @ concat (map (\<lambda>(sp, w). sp @ w) xs)) = Inr (w1 # map snd xs)"
proof -
  have "parse_command (w1 @ concat (map (\<lambda>(sp, w). sp @ w) xs)) =
      read_token SWord w1 False (concat (map (\<lambda>(sp, w). sp @ w) xs))"
    unfolding parse_command_def using assms(1,2) by (rule read_token_first_word)
  also have "\<dots> = Inr (w1 # map snd xs)"
    using assms(3,1) by (rule read_token_more_words)
  finally show ?thesis .
qed

section \<open>The dispatcher\<close>


lemma and_then_Uncaught: "and_then (evs, Uncaught e) r = (evs, Uncaught e)"
  by (simp add: and_then_def)













end
